theory Spec2Isabelle
  imports Complex_Main "HOL-Library.Multiset"
begin

section \<open>Time and calendar days\<close>

text \<open>
  A JavaScript \<^verbatim>\<open>Date\<close> is an instant: the number of milliseconds since
  1970-01-01T00:00:00Z. A record's \<^verbatim>\<open>date\<close> field holds an ISO calendar date
  \<^verbatim>\<open>YYYY-MM-DD\<close> (the check-in screen produces it with
  \<^verbatim>\<open>new Date().toISOString().split('T')[0]\<close>); the model keeps it as the number of
  that day, counted from 1970-01-01, so that equality of the strings is equality of the
  numbers. Time stamps (\<^verbatim>\<open>toISOString()\<close>) are kept as the instant they print.
  One operation reads the clock once. Numbers that the source divides are reals: the
  rounding of doubles is outside the model.
\<close>

definition msPerDay :: int where
  "msPerDay = 86400000"

definition parseDate :: "int \<Rightarrow> int" where
  \<comment> \<open>\<^verbatim>\<open>new Date(r.date)\<close>: a date-only ISO string is midnight UTC of that day\<close>
  "parseDate d = d * msPerDay"

definition isoDate :: "int \<Rightarrow> int" where
  \<comment> \<open>\<^verbatim>\<open>t.toISOString().split('T')[0]\<close>: the UTC calendar day of an instant\<close>
  "isoDate t = t div msPerDay"

text \<open>
  The device's time zone gives the offset of local time from UTC, in milliseconds. The
  language reads it in two directions: \<open>utcOffset\<close> is the offset in force at a UTC
  instant (it takes an instant to local time), \<open>localOffset\<close> is the offset by which
  a local time value is read (it takes local time to an instant). In a zone without
  daylight-saving changes both are one constant.
\<close>

record zone =
  utcOffset :: "int \<Rightarrow> int"
  localOffset :: "int \<Rightarrow> int"

definition fixedZone :: "int \<Rightarrow> zone" where
  "fixedZone off = \<lparr> utcOffset = (\<lambda>t. off), localOffset = (\<lambda>t. off) \<rparr>"

definition localTime :: "zone \<Rightarrow> int \<Rightarrow> int" where
  "localTime tz t = t + utcOffset tz t"

definition utcOf :: "zone \<Rightarrow> int \<Rightarrow> int" where
  "utcOf tz local = local - localOffset tz local"

definition minusDays :: "zone \<Rightarrow> int \<Rightarrow> int \<Rightarrow> int" where
  \<comment> \<open>\<^verbatim>\<open>t.setDate(t.getDate() - n)\<close>: the local time value of \<open>t\<close> moved to the
      local calendar day \<open>n\<close> days earlier, at the same local time of day, and read back
      as an instant by the offset of that local time\<close>
  "minusDays tz t n = utcOf tz (localTime tz t - n * msPerDay)"

text \<open>
  The civil calendar of the language's \<^verbatim>\<open>Date\<close> (proleptic Gregorian), as day
  arithmetic on years that start in March. Months are 1 to 12 here; the \<^verbatim>\<open>Date\<close>
  operations below shift to JavaScript's 0 to 11.
\<close>

definition daysFromCivil :: "int \<Rightarrow> int \<Rightarrow> int \<Rightarrow> int" where
  "daysFromCivil y m d =
     (let y' = (if m \<le> 2 then y - 1 else y);
          era = y' div 400;
          yoe = y' - era * 400;
          mp = (if m > 2 then m - 3 else m + 9);
          doy = (153 * mp + 2) div 5 + d - 1;
          doe = yoe * 365 + yoe div 4 - yoe div 100 + doy
      in era * 146097 + doe - 719468)"

definition civilFromDays :: "int \<Rightarrow> int \<times> int \<times> int" where
  "civilFromDays n =
     (let z = n + 719468;
          era = z div 146097;
          doe = z - era * 146097;
          yoe = (doe - doe div 1460 + doe div 36524 - doe div 146096) div 365;
          doy = doe - (365 * yoe + yoe div 4 - yoe div 100);
          mp = (5 * doy + 2) div 153;
          d = doy - (153 * mp + 2) div 5 + 1;
          m = (if mp < 10 then mp + 3 else mp - 9);
          y = yoe + era * 400
      in (if m \<le> 2 then y + 1 else y, m, d))"

definition getFullYear :: "zone \<Rightarrow> int \<Rightarrow> int" where
  "getFullYear tz t = fst (civilFromDays (localTime tz t div msPerDay))"

definition getMonth :: "zone \<Rightarrow> int \<Rightarrow> int" where
  "getMonth tz t = fst (snd (civilFromDays (localTime tz t div msPerDay))) - 1"

definition getDate :: "zone \<Rightarrow> int \<Rightarrow> int" where
  "getDate tz t = snd (snd (civilFromDays (localTime tz t div msPerDay)))"

definition newDate :: "zone \<Rightarrow> int \<Rightarrow> int \<Rightarrow> int \<Rightarrow> int" where
  \<comment> \<open>\<^verbatim>\<open>new Date(year, month, day)\<close>: local midnight; a month outside 0 to 11 carries
      into the year and a day outside the month carries into the neighbouring month\<close>
  "newDate tz year month day =
     utcOf tz ((daysFromCivil (year + month div 12) (month mod 12 + 1) 1 + day - 1) * msPerDay)"

section \<open>Daily records\<close>

text \<open>The interface \<^verbatim>\<open>DailyRecord\<close> of LocalStorageService.ts; fields carry the prefix \<open>r_\<close>.\<close>

record DailyRecord =
  r_id :: string
  r_date :: int
  r_capsules :: int
  r_time :: string
  r_notes :: "string option"
  r_completed :: bool
  r_createdAt :: int
  r_updatedAt :: int

subsection \<open>Array.prototype.sort\<close>

text \<open>
  The language's sort is stable and is driven by a comparator: \<open>a\<close> stays before \<open>b\<close>
  unless the comparator is positive on them.
\<close>

fun insertBy :: "('a \<Rightarrow> 'a \<Rightarrow> int) \<Rightarrow> 'a \<Rightarrow> 'a list \<Rightarrow> 'a list" where
  "insertBy cmp x [] = [x]"
| "insertBy cmp x (y # ys) = (if cmp x y \<le> 0 then x # y # ys else y # insertBy cmp x ys)"

definition arraySort :: "('a \<Rightarrow> 'a \<Rightarrow> int) \<Rightarrow> 'a list \<Rightarrow> 'a list" where
  "arraySort cmp xs = foldr (insertBy cmp) xs []"

definition byDateDesc :: "DailyRecord \<Rightarrow> DailyRecord \<Rightarrow> int" where
  \<comment> \<open>\<^verbatim>\<open>(a, b) => new Date(b.date).getTime() - new Date(a.date).getTime()\<close>\<close>
  "byDateDesc a b = parseDate (r_date b) - parseDate (r_date a)"

abbreviation dateDesc :: "DailyRecord \<Rightarrow> DailyRecord \<Rightarrow> bool" where
  "dateDesc a b \<equiv> r_date b \<le> r_date a"

section \<open>Derived statistics\<close>

record Stats =
  totalDays :: nat
  currentStreak :: nat
  averageCapsules :: real
  completionRate :: real
  totalCapsules :: int
  monthlyProgress :: real
  completedDaysThisMonth :: nat

text \<open>
  The loop of \<^verbatim>\<open>calculateStats\<close> that counts the streak: index \<open>i\<close> runs over the
  sorted completed records and the loop breaks at the first record whose date is not the
  expected one.
\<close>

function streakLoop :: "zone \<Rightarrow> int \<Rightarrow> DailyRecord list \<Rightarrow> nat \<Rightarrow> nat \<Rightarrow> nat" where
  "streakLoop tz now streakRecords i streak =
     (if i < length streakRecords then
        (let recordDate = r_date (streakRecords ! i);
             expectedDate = minusDays tz now (int i);
             expectedDateStr = isoDate expectedDate
         in if recordDate = expectedDateStr
            then streakLoop tz now streakRecords (i + 1) (streak + 1)
            else streak)
      else streak)"
  by pat_completeness auto
termination
  by (relation "measure (\<lambda>(tz, now, rs, i, streak). length rs - i)") auto

declare streakLoop.simps [simp del]

definition calculateStats :: "zone \<Rightarrow> int \<Rightarrow> DailyRecord list \<Rightarrow> Stats" where
  "calculateStats tz now records =
     (let completedRecords = filter r_completed records;
          totalDays = length completedRecords;
          totalCapsules = foldl (\<lambda>sum r. sum + r_capsules r) 0 completedRecords;
          averageCapsules = (if totalDays > 0 then real_of_int totalCapsules / real totalDays else 0);
          streakRecords = arraySort byDateDesc completedRecords;
          currentStreak = streakLoop tz now streakRecords 0 0;
          thirtyDaysAgo = minusDays tz now 30;
          last30DaysRecords = filter (\<lambda>r. parseDate (r_date r) \<ge> thirtyDaysAgo) records;
          completedLast30Days = length (filter r_completed last30DaysRecords);
          completionRate = (real completedLast30Days / 30) * 100;
          monthlyProgress = completionRate;
          completedDaysThisMonth = completedLast30Days
      in \<lparr> totalDays = totalDays,
           currentStreak = currentStreak,
           averageCapsules = averageCapsules,
           completionRate = completionRate,
           totalCapsules = totalCapsules,
           monthlyProgress = monthlyProgress,
           completedDaysThisMonth = completedDaysThisMonth \<rparr>)"

text \<open>The home screen's own month view, \<^verbatim>\<open>calculateCurrentMonthStats\<close>.\<close>

record MonthStats =
  progress :: real
  completedDays :: nat
  totalDaysInMonth :: int

definition calculateCurrentMonthStats :: "zone \<Rightarrow> int \<Rightarrow> DailyRecord list \<Rightarrow> MonthStats" where
  "calculateCurrentMonthStats tz now records =
     (let year = getFullYear tz now;
          month = getMonth tz now;
          firstDay = newDate tz year month 1;
          lastDay = newDate tz year (month + 1) 0;
          totalDaysInMonth = getDate tz lastDay;
          currentMonthRecords =
            filter (\<lambda>r. parseDate (r_date r) \<ge> firstDay \<and> parseDate (r_date r) \<le> lastDay) records;
          completedRecords = filter r_completed currentMonthRecords;
          completedDays = length completedRecords;
          progress = (real completedDays / real_of_int totalDaysInMonth) * 100
      in \<lparr> progress = progress,
           completedDays = completedDays,
           totalDaysInMonth = totalDaysInMonth \<rparr>)"

section \<open>The storage service\<close>

subsection \<open>Strings\<close>

text \<open>
  A string is the sequence of its bytes. \<^verbatim>\<open>String.prototype.toLowerCase\<close> is the
  language's and maps letters of every script: the operations that call it take it as
  the parameter \<open>toLowerCase\<close>, and what is proved of them holds for every such
  function. Below, the decimal notation that a template string gives an integer.
\<close>

function decimalDigits :: "int \<Rightarrow> string" where
  "decimalDigits n =
     (if n < 10 then [char_of (48 + n)]
      else decimalDigits (n div 10) @ [char_of (48 + n mod 10)])"
  by pat_completeness auto
termination
  by (relation "measure nat") auto

declare decimalDigits.simps [simp del]

definition numberToString :: "int \<Rightarrow> string" where
  "numberToString i =
     (if i < 0 then CHR ''-'' # decimalDigits (- i) else decimalDigits i)"

definition pad2 :: "int \<Rightarrow> string" where
  "pad2 n = (if 0 \<le> n \<and> n < 10 then CHR ''0'' # numberToString n else numberToString n)"

definition toLocaleDateString_ptBR :: "zone \<Rightarrow> int \<Rightarrow> string" where
  \<comment> \<open>\<^verbatim>\<open>toLocaleDateString('pt-BR')\<close>: the local date as dd/mm/yyyy\<close>
  "toLocaleDateString_ptBR tz t =
     pad2 (getDate tz t) @ ''/'' @ pad2 (getMonth tz t + 1) @ ''/'' @
     numberToString (getFullYear tz t)"

subsection \<open>Entities\<close>

text \<open>
  The interfaces of LocalStorageService.ts. \<^verbatim>\<open>Partial<T>\<close> is the record of the
  same fields, each optional: \<open>None\<close> is a field that the object does not have. A field
  given as an explicit \<^verbatim>\<open>undefined\<close> is outside the model. The profile under the key
  \<^verbatim>\<open>userProfile\<close> is kept as a partial object, because \<^verbatim>\<open>updateUserProfile\<close>
  can store one that lacks required fields.
\<close>

record User =
  u_id :: string
  u_email :: string
  u_name :: string
  u_createdAt :: int
  u_updatedAt :: int

datatype gender = male | female | other

record UserProfilePartial =
  p_name :: "string option"
  p_dateOfBirth :: "string option"
  p_gender :: "gender option"
  p_email :: "string option"
  p_phone :: "string option"
  p_profileImageUrl :: "string option"
  p_treatmentStartDate :: "string option"
  p_hasSeenTutorial :: "bool option"
  p_createdAt :: "int option"
  p_updatedAt :: "int option"

record DailyRecordPartial =
  ru_id :: "string option"
  ru_date :: "int option"
  ru_capsules :: "int option"
  ru_time :: "string option"
  ru_notes :: "string option"
  ru_completed :: "bool option"
  ru_createdAt :: "int option"
  ru_updatedAt :: "int option"

datatype theme = light | dark

datatype language = en | pt

record UserSettings =
  s_notifications :: bool
  s_reminderTime :: string
  s_dailyGoal :: int
  s_weeklyGoal :: int
  s_theme :: theme
  s_language :: language
  s_createdAt :: int
  s_updatedAt :: int

record UserSettingsPartial =
  su_notifications :: "bool option"
  su_reminderTime :: "string option"
  su_dailyGoal :: "int option"
  su_weeklyGoal :: "int option"
  su_theme :: "theme option"
  su_language :: "language option"
  su_createdAt :: "int option"
  su_updatedAt :: "int option"

subsection \<open>The key-value store\<close>

text \<open>
  One field for each key of \<^verbatim>\<open>STORAGE_KEYS\<close> that the service reads or writes;
  \<open>None\<close> is a key that is not set. The JSON text under a key is kept as the value it
  encodes: \<^verbatim>\<open>JSON.parse\<close> undoes \<^verbatim>\<open>JSON.stringify\<close> on these values. A
  backend that fails, and text under a key that is not JSON of the key's type, are outside
  the model.
\<close>

record store =
  registeredUsers :: "User list option"
  currentUser :: "User option"
  authToken :: "string option"
  userProfile :: "UserProfilePartial option"
  dailyRecords :: "DailyRecord list option"
  userSettings :: "UserSettings option"
  tutorialSeen :: "string option"

definition emptyStore :: store where
  "emptyStore =
     \<lparr> registeredUsers = None, currentUser = None, authToken = None, userProfile = None,
       dailyRecords = None, userSettings = None, tutorialSeen = None \<rparr>"

datatype error = Error string

subsection \<open>Object spread\<close>

definition spread :: "'a \<Rightarrow> 'a option \<Rightarrow> 'a" where
  \<comment> \<open>a required field of \<^verbatim>\<open>{...current, ...updates}\<close>\<close>
  "spread current upd = (case upd of Some v \<Rightarrow> v | None \<Rightarrow> current)"

definition spreadOpt :: "'a option \<Rightarrow> 'a option \<Rightarrow> 'a option" where
  \<comment> \<open>an optional field of \<^verbatim>\<open>{...current, ...updates}\<close>\<close>
  "spreadOpt current upd = (case upd of Some v \<Rightarrow> Some v | None \<Rightarrow> current)"

definition mergeDailyRecord :: "DailyRecord \<Rightarrow> DailyRecordPartial \<Rightarrow> int \<Rightarrow> DailyRecord" where
  \<comment> \<open>\<^verbatim>\<open>{...records[recordIndex], ...updates, updatedAt: new Date().toISOString()}\<close>\<close>
  "mergeDailyRecord r updates now =
     \<lparr> r_id = spread (r_id r) (ru_id updates),
       r_date = spread (r_date r) (ru_date updates),
       r_capsules = spread (r_capsules r) (ru_capsules updates),
       r_time = spread (r_time r) (ru_time updates),
       r_notes = spreadOpt (r_notes r) (ru_notes updates),
       r_completed = spread (r_completed r) (ru_completed updates),
       r_createdAt = spread (r_createdAt r) (ru_createdAt updates),
       r_updatedAt = now \<rparr>"

definition noProfile :: UserProfilePartial where
  \<comment> \<open>what spreading \<^verbatim>\<open>null\<close> contributes: no field\<close>
  "noProfile =
     \<lparr> p_name = None, p_dateOfBirth = None, p_gender = None, p_email = None, p_phone = None,
       p_profileImageUrl = None, p_treatmentStartDate = None, p_hasSeenTutorial = None,
       p_createdAt = None, p_updatedAt = None \<rparr>"

definition mergeProfile ::
  "UserProfilePartial option \<Rightarrow> UserProfilePartial \<Rightarrow> int \<Rightarrow> UserProfilePartial" where
  \<comment> \<open>\<^verbatim>\<open>{...currentProfile, ...updates, updatedAt: new Date().toISOString()}\<close>\<close>
  "mergeProfile currentProfile updates now =
     (let c = (case currentProfile of Some p \<Rightarrow> p | None \<Rightarrow> noProfile)
      in \<lparr> p_name = spreadOpt (p_name c) (p_name updates),
           p_dateOfBirth = spreadOpt (p_dateOfBirth c) (p_dateOfBirth updates),
           p_gender = spreadOpt (p_gender c) (p_gender updates),
           p_email = spreadOpt (p_email c) (p_email updates),
           p_phone = spreadOpt (p_phone c) (p_phone updates),
           p_profileImageUrl = spreadOpt (p_profileImageUrl c) (p_profileImageUrl updates),
           p_treatmentStartDate = spreadOpt (p_treatmentStartDate c) (p_treatmentStartDate updates),
           p_hasSeenTutorial = spreadOpt (p_hasSeenTutorial c) (p_hasSeenTutorial updates),
           p_createdAt = spreadOpt (p_createdAt c) (p_createdAt updates),
           p_updatedAt = Some now \<rparr>)"

definition mergeSettings :: "UserSettings \<Rightarrow> UserSettingsPartial \<Rightarrow> int \<Rightarrow> UserSettings" where
  \<comment> \<open>\<^verbatim>\<open>{...currentSettings, ...updates, updatedAt: new Date().toISOString()}\<close>\<close>
  "mergeSettings c updates now =
     \<lparr> s_notifications = spread (s_notifications c) (su_notifications updates),
       s_reminderTime = spread (s_reminderTime c) (su_reminderTime updates),
       s_dailyGoal = spread (s_dailyGoal c) (su_dailyGoal updates),
       s_weeklyGoal = spread (s_weeklyGoal c) (su_weeklyGoal updates),
       s_theme = spread (s_theme c) (su_theme updates),
       s_language = spread (s_language c) (su_language updates),
       s_createdAt = spread (s_createdAt c) (su_createdAt updates),
       s_updatedAt = now \<rparr>"

subsection \<open>Operations\<close>

text \<open>
  Every operation takes the store and returns its result with the store it leaves. An
  operation that throws returns \<open>Inl\<close> of the error. \<open>now\<close> is the clock's reading
  (\<^verbatim>\<open>Date.now()\<close>, \<^verbatim>\<open>new Date()\<close>), \<open>tz\<close> the device's time zone.
\<close>

definition getAllUsers :: "store \<Rightarrow> User list" where
  "getAllUsers s = (case registeredUsers s of Some users \<Rightarrow> users | None \<Rightarrow> [])"

definition defaultSettings :: "int \<Rightarrow> UserSettings" where
  "defaultSettings now =
     \<lparr> s_notifications = True, s_reminderTime = ''09:00'', s_dailyGoal = 2, s_weeklyGoal = 14,
       s_theme = light, s_language = en, s_createdAt = now, s_updatedAt = now \<rparr>"

definition defaultProfile :: "zone \<Rightarrow> int \<Rightarrow> string \<Rightarrow> string \<Rightarrow> UserProfilePartial" where
  "defaultProfile tz now name email =
     \<lparr> p_name = Some name, p_dateOfBirth = None, p_gender = None, p_email = Some email,
       p_phone = None, p_profileImageUrl = None,
       p_treatmentStartDate = Some (toLocaleDateString_ptBR tz now),
       p_hasSeenTutorial = Some False, p_createdAt = Some now, p_updatedAt = Some now \<rparr>"

definition registerUser ::
  "(string \<Rightarrow> string) \<Rightarrow> zone \<Rightarrow> int \<Rightarrow> string \<Rightarrow> string \<Rightarrow> string \<Rightarrow> store \<Rightarrow>
     (error + User) \<times> store" where
  "registerUser toLowerCase tz now email password name s =
     (let users = getAllUsers s;
          existingUser = find (\<lambda>u. toLowerCase (u_email u) = toLowerCase email) users
      in case existingUser of
           Some u \<Rightarrow> (Inl (Error ''Email already exists''), s)
         | None \<Rightarrow>
             (let newUser = \<lparr> u_id = ''user_'' @ numberToString now, u_email = email,
                              u_name = name, u_createdAt = now, u_updatedAt = now \<rparr>;
                  users = users @ [newUser];
                  s = s\<lparr>registeredUsers := Some users\<rparr>;
                  s = s\<lparr>currentUser := Some newUser\<rparr>;
                  s = s\<lparr>authToken := Some (''token_'' @ numberToString now)\<rparr>;
                  s = s\<lparr>userProfile := Some (defaultProfile tz now name email)\<rparr>;
                  s = s\<lparr>userSettings := Some (defaultSettings now)\<rparr>
              in (Inr newUser, s)))"

definition loginUser ::
  "(string \<Rightarrow> string) \<Rightarrow> int \<Rightarrow> string \<Rightarrow> string \<Rightarrow> store \<Rightarrow> (error + User) \<times> store" where
  "loginUser toLowerCase now email password s =
     (let users = getAllUsers s;
          user = find (\<lambda>u. toLowerCase (u_email u) = toLowerCase email) users
      in case user of
           None \<Rightarrow> (Inl (Error ''User not found''), s)
         | Some u \<Rightarrow>
             (let s = s\<lparr>currentUser := Some u\<rparr>;
                  s = s\<lparr>authToken := Some (''token_'' @ numberToString now)\<rparr>
              in (Inr u, s)))"

definition getCurrentUser :: "store \<Rightarrow> User option" where
  \<comment> \<open>an empty token string is falsy\<close>
  "getCurrentUser s =
     (case (currentUser s, authToken s) of
        (Some userData, Some token) \<Rightarrow> (if token \<noteq> [] then Some userData else None)
      | _ \<Rightarrow> None)"

definition getUserProfile :: "store \<Rightarrow> UserProfilePartial option" where
  "getUserProfile s = userProfile s"

definition updateUserProfile ::
  "int \<Rightarrow> UserProfilePartial \<Rightarrow> store \<Rightarrow> (error + unit) \<times> store" where
  "updateUserProfile now updates s =
     (let currentProfile = getUserProfile s;
          updatedProfile = mergeProfile currentProfile updates now
      in (Inr (), s\<lparr>userProfile := Some updatedProfile\<rparr>))"

definition getDailyRecords :: "store \<Rightarrow> DailyRecord list" where
  "getDailyRecords s =
     (let records = (case dailyRecords s of Some rs \<Rightarrow> rs | None \<Rightarrow> [])
      in arraySort byDateDesc records)"

abbreviation storedRecords :: "store \<Rightarrow> DailyRecord list" where
  "storedRecords s \<equiv> (case dailyRecords s of Some rs \<Rightarrow> rs | None \<Rightarrow> [])"

fun findIndex :: "('a \<Rightarrow> bool) \<Rightarrow> 'a list \<Rightarrow> int" where
  "findIndex P [] = - 1"
| "findIndex P (x # xs) =
     (if P x then 0 else (let i = findIndex P xs in if i = - 1 then - 1 else i + 1))"

definition updateDailyRecord ::
  "int \<Rightarrow> string \<Rightarrow> DailyRecordPartial \<Rightarrow> store \<Rightarrow> (error + unit) \<times> store" where
  "updateDailyRecord now recordId updates s =
     (let records = getDailyRecords s;
          recordIndex = findIndex (\<lambda>r. r_id r = recordId) records
      in if recordIndex = - 1 then (Inl (Error ''Record not found''), s)
         else
           (let i = nat recordIndex;
                records = records[i := mergeDailyRecord (records ! i) updates now]
            in (Inr (), s\<lparr>dailyRecords := Some records\<rparr>)))"

definition getUserSettings :: "int \<Rightarrow> store \<Rightarrow> UserSettings \<times> store" where
  "getUserSettings now s =
     (case userSettings s of
        Some settings \<Rightarrow> (settings, s)
      | None \<Rightarrow> (defaultSettings now, s\<lparr>userSettings := Some (defaultSettings now)\<rparr>))"

definition updateUserSettings ::
  "int \<Rightarrow> UserSettingsPartial \<Rightarrow> store \<Rightarrow> (error + unit) \<times> store" where
  "updateUserSettings now updates s =
     (let (currentSettings, s) = getUserSettings now s;
          updatedSettings = mergeSettings currentSettings updates now
      in (Inr (), s\<lparr>userSettings := Some updatedSettings\<rparr>))"

subsection \<open>Export and import\<close>

text \<open>
  The exported document, as the value that its JSON text encodes. \<open>None\<close> is an entry
  that is \<^verbatim>\<open>null\<close> or missing; an object and an array, also the empty one, are truthy.
\<close>

record metadata =
  version :: string
  exportDate :: int
  platform :: string

record document =
  d_user :: "User option"
  d_profile :: "UserProfilePartial option"
  d_records :: "DailyRecord list option"
  d_settings :: "UserSettings option"
  d_metadata :: "metadata option"

definition exportAllData :: "int \<Rightarrow> store \<Rightarrow> document \<times> store" where
  "exportAllData now s =
     (let user = getCurrentUser s;
          profile = getUserProfile s;
          records = getDailyRecords s;
          (settings, s) = getUserSettings now s
      in (\<lparr> d_user = user, d_profile = profile, d_records = Some records,
             d_settings = Some settings,
             d_metadata = Some \<lparr> version = ''1.0.0'', exportDate = now,
                                  platform = ''MaxTestorin Tracker'' \<rparr> \<rparr>, s))"

definition importAllData :: "document \<Rightarrow> store \<Rightarrow> (error + unit) \<times> store" where
  "importAllData data s =
     (let s = (case d_profile data of Some p \<Rightarrow> s\<lparr>userProfile := Some p\<rparr> | None \<Rightarrow> s);
          s = (case d_records data of Some rs \<Rightarrow> s\<lparr>dailyRecords := Some rs\<rparr> | None \<Rightarrow> s);
          s = (case d_settings data of Some st \<Rightarrow> s\<lparr>userSettings := Some st\<rparr> | None \<Rightarrow> s)
      in (Inr (), s))"

section \<open>Example data\<close>

text \<open>
  Day 19797 is 2024-03-15, and \<open>exampleNow\<close> is noon UTC of that day.
  \<open>newYork\<close> is the zone America/New_York around its change to daylight-saving time
  of 2024-03-10: five hours behind UTC before 07:00 UTC of that day (day 19792) and four
  hours behind from then on; a local time before 03:00 of that day is read five hours
  behind, a later one four hours behind. \<open>asciiLowerCase\<close> is the language's
  \<^verbatim>\<open>toLowerCase\<close> on strings of ASCII characters.
\<close>

definition newYork :: zone where
  "newYork =
     \<lparr> utcOffset = (\<lambda>t. if t < 19792 * msPerDay + 25200000 then - 18000000 else - 14400000),
       localOffset =
         (\<lambda>local. if local < 19792 * msPerDay + 10800000 then - 18000000 else - 14400000) \<rparr>"

definition asciiLowerChar :: "char \<Rightarrow> char" where
  "asciiLowerChar c =
     (let n = (of_char c :: nat) in if 65 \<le> n \<and> n \<le> 90 then char_of (n + 32) else c)"

definition asciiLowerCase :: "string \<Rightarrow> string" where
  "asciiLowerCase s = map asciiLowerChar s"

definition exampleRecord :: "int \<Rightarrow> bool \<Rightarrow> DailyRecord" where
  "exampleRecord d c =
     \<lparr> r_id = ''record_'' @ numberToString d, r_date = d, r_capsules = 2, r_time = ''09:00'',
       r_notes = None, r_completed = c, r_createdAt = 0, r_updatedAt = 0 \<rparr>"

definition exampleNow :: int where
  "exampleNow = 19797 * msPerDay + 43200000"

definition exampleEvening :: int where
  \<comment> \<open>2024-03-10T23:30:00Z\<close>
  "exampleEvening = 19792 * msPerDay + 84600000"

definition exampleUser :: User where
  "exampleUser = \<lparr> u_id = ''user_1'', u_email = ''Ana@Example.com'', u_name = ''Ana'',
                   u_createdAt = 1, u_updatedAt = 1 \<rparr>"

definition exampleStore :: store where
  "exampleStore = emptyStore\<lparr> registeredUsers := Some [exampleUser],
     dailyRecords := Some [exampleRecord 19795 True, exampleRecord 19797 False,
                           exampleRecord 19796 True] \<rparr>"

definition noRecordUpdates :: DailyRecordPartial where
  "noRecordUpdates =
     \<lparr> ru_id = None, ru_date = None, ru_capsules = None, ru_time = None, ru_notes = None,
       ru_completed = None, ru_createdAt = None, ru_updatedAt = None \<rparr>"

definition noSettingsUpdates :: UserSettingsPartial where
  "noSettingsUpdates =
     \<lparr> su_notifications = None, su_reminderTime = None, su_dailyGoal = None,
       su_weeklyGoal = None, su_theme = None, su_language = None, su_createdAt = None,
       su_updatedAt = None \<rparr>"

section \<open>Properties\<close>

subsection \<open>Time\<close>

lemma msPerDay_pos: "0 < msPerDay"
  by (simp add: msPerDay_def)

lemma parseDate_le_iff: "parseDate a \<le> parseDate b \<longleftrightarrow> a \<le> b"
  using msPerDay_pos by (simp add: parseDate_def)

lemma minusDays_fixedZone: "minusDays (fixedZone off) t n = t - n * msPerDay"
  by (simp add: minusDays_def utcOf_def localTime_def fixedZone_def)

lemma isoDate_minusDays: "isoDate (minusDays (fixedZone off) now n) = isoDate now - n"
proof -
  have "(now + (- n) * msPerDay) div msPerDay = now div msPerDay + (- n)"
    using msPerDay_pos by (subst div_mult_self1) simp_all
  then show ?thesis by (simp add: isoDate_def minusDays_fixedZone)
qed

text \<open>
  The filter of the completion rate in days, in a zone of fixed offset: the window starts
  29 days before today, and 30 days before when the clock reads midnight UTC to the
  millisecond.
\<close>

lemma window_lower_bound:
  "minusDays (fixedZone off) now 30 \<le> parseDate d \<longleftrightarrow>
     (if now mod msPerDay = 0 then isoDate now - 30 \<le> d else isoDate now - 29 \<le> d)"
proof -
  define q r k where "q = now div msPerDay" and "r = now mod msPerDay" and "k = q - 30 - d"
  have now: "now = q * msPerDay + r" and r: "0 \<le> r" "r < msPerDay"
    using msPerDay_pos by (simp_all add: q_def r_def)
  have lhs: "minusDays (fixedZone off) now 30 \<le> parseDate d \<longleftrightarrow> k * msPerDay + r \<le> 0"
    by (simp add: minusDays_fixedZone parseDate_def now k_def algebra_simps)
  consider "k \<le> - 1" | "k = 0" | "1 \<le> k" by linarith
  then have main: "k * msPerDay + r \<le> 0 \<longleftrightarrow> (if r = 0 then k \<le> 0 else k \<le> - 1)"
  proof cases
    case 1
    then have "k * msPerDay \<le> - 1 * msPerDay"
      using msPerDay_pos by (intro mult_right_mono) simp_all
    with r have "k * msPerDay + r \<le> 0" by linarith
    with 1 show ?thesis by auto
  next
    case 2
    with r show ?thesis by simp
  next
    case 3
    then have "1 * msPerDay \<le> k * msPerDay"
      using msPerDay_pos by (intro mult_right_mono) simp_all
    with r msPerDay_pos have "\<not> k * msPerDay + r \<le> 0" by linarith
    with 3 show ?thesis by auto
  qed
  have k0: "k \<le> 0 \<longleftrightarrow> isoDate now - 30 \<le> d"
    and k1: "k \<le> - 1 \<longleftrightarrow> isoDate now - 29 \<le> d"
    by (auto simp: k_def q_def isoDate_def)
  show ?thesis
    unfolding lhs main k0 k1 by (simp add: r_def)
qed

subsection \<open>The sort\<close>

lemma mset_insertBy: "mset (insertBy cmp x xs) = add_mset x (mset xs)"
  by (induction xs) simp_all

lemma mset_arraySort: "mset (arraySort cmp xs) = mset xs"
  by (induction xs) (simp_all add: arraySort_def mset_insertBy)

lemma set_insertBy: "set (insertBy cmp x xs) = insert x (set xs)"
  using mset_insertBy [of cmp x xs] by (metis set_mset_add_mset_insert set_mset_mset)

lemma set_arraySort: "set (arraySort cmp xs) = set xs"
  using mset_arraySort [of cmp xs] by (metis set_mset_mset)

lemma length_arraySort: "length (arraySort cmp xs) = length xs"
  using mset_arraySort [of cmp xs] by (metis size_mset)

lemma byDateDesc_le: "byDateDesc a b \<le> 0 \<longleftrightarrow> r_date b \<le> r_date a"
  by (simp add: byDateDesc_def parseDate_le_iff)

lemma sorted_insertBy:
  "sorted_wrt dateDesc xs \<Longrightarrow> sorted_wrt dateDesc (insertBy byDateDesc x xs)"
proof (induction xs)
  case Nil
  then show ?case by simp
next
  case (Cons y ys)
  show ?case
  proof (cases "byDateDesc x y \<le> 0")
    case True
    then have "dateDesc x y" by (simp add: byDateDesc_le)
    moreover have "\<forall>z\<in>set ys. dateDesc x z"
      using Cons.prems \<open>dateDesc x y\<close> by auto
    ultimately show ?thesis using True Cons.prems by simp
  next
    case False
    then have "dateDesc y x" by (simp add: byDateDesc_le)
    with False Cons show ?thesis by (auto simp: set_insertBy)
  qed
qed

lemma sorted_arraySort: "sorted_wrt dateDesc (arraySort byDateDesc xs)"
  by (induction xs) (simp_all add: arraySort_def sorted_insertBy)

lemma sorted_wrt_distinct_key:
  "sorted_wrt P xs \<Longrightarrow> distinct (map f xs) \<Longrightarrow> sorted_wrt (\<lambda>a b. P a b \<and> f a \<noteq> f b) xs"
  by (induction xs) auto

lemma sorted_dates_arraySort:
  "sorted_wrt (\<lambda>a b. b \<le> a) (map r_date (arraySort byDateDesc xs))"
  using sorted_arraySort [of xs] by (simp add: sorted_wrt_map)

lemma dates_desc_unique:
  fixes ds :: "int list"
  assumes "sorted_wrt (\<lambda>a b. b \<le> a) ds" and "mset ds = mset es" and "sorted_wrt (\<lambda>a b. b \<le> a) es"
  shows "ds = es"
proof -
  have "sorted (rev ds)" "sorted (rev es)"
    using assms by (simp_all add: sorted_wrt_rev)
  moreover have "mset (rev ds) = mset (rev es)"
    using assms by simp
  ultimately have "rev ds = rev es"
    by (metis properties_for_sort)
  then show ?thesis by simp
qed

lemma arraySort_sorted_id:
  "sorted_wrt dateDesc xs \<Longrightarrow> arraySort byDateDesc xs = xs"
proof (induction xs)
  case Nil
  then show ?case by (simp add: arraySort_def)
next
  case (Cons x xs)
  then have "arraySort byDateDesc (x # xs) = insertBy byDateDesc x xs"
    by (simp add: arraySort_def)
  also have "\<dots> = x # xs"
    using Cons.prems by (cases xs) (simp_all add: byDateDesc_le)
  finally show ?case .
qed

lemma arraySort_idem:
  "arraySort byDateDesc (arraySort byDateDesc xs) = arraySort byDateDesc xs"
  by (rule arraySort_sorted_id) (rule sorted_arraySort)

subsection \<open>The examples, evaluated\<close>

lemmas example_defs = exampleStore_def exampleUser_def emptyStore_def exampleRecord_def

lemmas string_eval = asciiLowerCase_def asciiLowerChar_def char_of_eq_iff numberToString_def
  decimalDigits.simps

lemma example_users: "getAllUsers exampleStore = [exampleUser]"
  by (simp add: getAllUsers_def exampleStore_def)

lemma example_sorted:
  "getDailyRecords exampleStore =
     [exampleRecord 19797 False, exampleRecord 19796 True, exampleRecord 19795 True]"
  by (simp add: getDailyRecords_def arraySort_def byDateDesc_def parseDate_def msPerDay_def
      example_defs)

lemma example_calendar:
  "civilFromDays (isoDate exampleNow) = (2024, 3, 15)"
  "civilFromDays 19773 = (2024, 2, 20)"
  "civilFromDays 19783 = (2024, 3, 1)"
  unfolding civilFromDays_def isoDate_def exampleNow_def msPerDay_def Let_def by simp_all

lemmas zone_eval = localTime_def utcOf_def fixedZone_def

lemma example_month_utc:
  "getFullYear (fixedZone 0) exampleNow = 2024" "getMonth (fixedZone 0) exampleNow = 2"
  "newDate (fixedZone 0) 2024 2 1 = parseDate 19783"
  "newDate (fixedZone 0) 2024 (2 + 1) 0 = parseDate 19813"
  "getDate (fixedZone 0) (parseDate 19813) = 31"
  unfolding getFullYear_def getMonth_def getDate_def newDate_def civilFromDays_def
    daysFromCivil_def parseDate_def exampleNow_def msPerDay_def zone_eval Let_def
  by simp_all

lemma example_month_brt:
  "getFullYear (fixedZone (- 10800000)) exampleNow = 2024"
  "getMonth (fixedZone (- 10800000)) exampleNow = 2"
  "newDate (fixedZone (- 10800000)) 2024 2 1 = parseDate 19783 + 10800000"
  "newDate (fixedZone (- 10800000)) 2024 (2 + 1) 0 = parseDate 19813 + 10800000"
  "getDate (fixedZone (- 10800000)) (parseDate 19813 + 10800000) = 31"
  unfolding getFullYear_def getMonth_def getDate_def newDate_def civilFromDays_def
    daysFromCivil_def parseDate_def exampleNow_def msPerDay_def zone_eval Let_def
  by simp_all

lemma example_month_april:
  "getFullYear (fixedZone 0) (parseDate 19828 + 43200000) = 2024"
  "getMonth (fixedZone 0) (parseDate 19828 + 43200000) = 3"
  "newDate (fixedZone 0) 2024 3 1 = parseDate 19814"
  "newDate (fixedZone 0) 2024 (3 + 1) 0 = parseDate 19843"
  "getDate (fixedZone 0) (parseDate 19843) = 30"
  unfolding getFullYear_def getMonth_def getDate_def newDate_def civilFromDays_def
    daysFromCivil_def parseDate_def msPerDay_def zone_eval Let_def
  by simp_all

subsection \<open>Reading the daily records\<close>

text \<open>
  Claim C8. When the stored daily records have pairwise distinct dates,
  \<^verbatim>\<open>getDailyRecords\<close> returns exactly those records (the same multiset), each
  dated strictly later than every record after it, whatever the order under the key.
\<close>

theorem getDailyRecords_sorted:
  "dailyRecords s = Some rs \<Longrightarrow> distinct (map r_date rs) \<Longrightarrow>
   mset (getDailyRecords s) = mset rs \<and>
   sorted_wrt (\<lambda>a b. r_date a > r_date b) (getDailyRecords s)"
proof -
  assume s: "dailyRecords s = Some rs" and d: "distinct (map r_date rs)"
  have g: "getDailyRecords s = arraySort byDateDesc rs"
    by (simp add: getDailyRecords_def s)
  have m: "mset (arraySort byDateDesc rs) = mset rs" by (rule mset_arraySort)
  then have "mset (map r_date (arraySort byDateDesc rs)) = mset (map r_date rs)"
    by simp
  with d have "distinct (map r_date (arraySort byDateDesc rs))"
    by (metis mset_eq_imp_distinct_iff)
  then have "sorted_wrt (\<lambda>a b. dateDesc a b \<and> r_date a \<noteq> r_date b) (arraySort byDateDesc rs)"
    by (intro sorted_wrt_distinct_key sorted_arraySort)
  then have "sorted_wrt (\<lambda>a b. r_date a > r_date b) (arraySort byDateDesc rs)"
    by (rule sorted_wrt_mono_rel [rotated]) auto
  with m g show ?thesis by simp
qed

theorem getDailyRecords_sorted_witness:
  "distinct (map r_date [exampleRecord 19795 True, exampleRecord 19797 False, exampleRecord 19796 True])
   \<and> getDailyRecords (emptyStore\<lparr>dailyRecords :=
        Some [exampleRecord 19795 True, exampleRecord 19797 False, exampleRecord 19796 True]\<rparr>)
     = [exampleRecord 19797 False, exampleRecord 19796 True, exampleRecord 19795 True]
   \<and> sorted_wrt (\<lambda>a b. r_date a > r_date b) (getDailyRecords (emptyStore\<lparr>dailyRecords :=
        Some [exampleRecord 19795 True, exampleRecord 19797 False, exampleRecord 19796 True]\<rparr>))"
  using getDailyRecords_sorted [of "emptyStore\<lparr>dailyRecords :=
        Some [exampleRecord 19795 True, exampleRecord 19797 False, exampleRecord 19796 True]\<rparr>"
        "[exampleRecord 19795 True, exampleRecord 19797 False, exampleRecord 19796 True]"]
  by (simp add: exampleRecord_def getDailyRecords_def arraySort_def byDateDesc_def parseDate_def msPerDay_def)

subsection \<open>The streak\<close>

text \<open>
  Where walking back \<open>n\<close> days from the clock's reading lands on the UTC day \<open>n\<close>
  days before today, as it does in every zone of fixed offset, the loop counts the leading
  indices \<open>i\<close> whose record is dated today minus \<open>i\<close> days.
\<close>

lemma streakLoop_takeWhile:
  assumes "\<And>n. isoDate (minusDays tz now (int n)) = isoDate now - int n"
    and "i \<le> length rs"
  shows "streakLoop tz now rs i k =
     k + length (takeWhile (\<lambda>(j, r). r_date r = isoDate now - int j) (enumerate i (drop i rs)))"
  using assms
proof (induction tz now rs i k rule: streakLoop.induct)
  case (1 tz now rs i k)
  note walk = "1.prems"(1)
  show ?case
  proof (cases "i < length rs")
    case False
    then have "streakLoop tz now rs i k = k"
      by (subst streakLoop.simps) simp
    with False "1.prems" show ?thesis by simp
  next
    case True
    then have d: "drop i rs = rs ! i # drop (Suc i) rs"
      by (simp add: Cons_nth_drop_Suc)
    show ?thesis
    proof (cases "r_date (rs ! i) = isoDate now - int i")
      case hit: True
      have "streakLoop tz now rs i k = streakLoop tz now rs (i + 1) (k + 1)"
        using True hit by (subst streakLoop.simps) (simp add: walk)
      also have "\<dots> = (k + 1) + length (takeWhile (\<lambda>(j, r). r_date r = isoDate now - int j)
                          (enumerate (i + 1) (drop (i + 1) rs)))"
        using "1.IH" [OF True refl refl refl _ walk] True hit by (simp add: walk)
      finally show ?thesis using hit by (simp add: d)
    next
      case miss: False
      then have "streakLoop tz now rs i k = k"
        using True by (subst streakLoop.simps) (simp add: walk)
      with miss show ?thesis by (simp add: d)
    qed
  qed
qed

lemma currentStreak_fixedZone:
  "currentStreak (calculateStats (fixedZone off) now rs) =
     length (takeWhile (\<lambda>(i, r). r_date r = isoDate now - int i)
               (enumerate 0 (arraySort byDateDesc (filter r_completed rs))))"
  by (simp add: calculateStats_def Let_def streakLoop_takeWhile isoDate_minusDays)

lemma streak_four_days:
  assumes "mset (map r_date (filter r_completed rs)) = {#t, t - 1, t - 2, t - 5#}"
    and "t = isoDate now"
  shows "currentStreak (calculateStats (fixedZone off) now rs) = 3"
proof -
  let ?S = "arraySort byDateDesc (filter r_completed rs)"
  have "mset (map r_date ?S) = mset [t, t - 1, t - 2, t - 5]"
    using assms(1) by (simp add: mset_arraySort)
  then have "map r_date ?S = [t, t - 1, t - 2, t - 5]"
    by (intro dates_desc_unique sorted_dates_arraySort) simp_all
  then obtain a b c d where S: "?S = [a, b, c, d]"
    and "r_date a = t" "r_date b = t - 1" "r_date c = t - 2" "r_date d = t - 5"
    by (auto simp: map_eq_Cons_conv)
  then show ?thesis
    using assms(2) by (simp add: currentStreak_fixedZone)
qed

lemma streak_future:
  assumes "r \<in> set rs" "r_completed r" "isoDate now < r_date r"
  shows "currentStreak (calculateStats (fixedZone off) now rs) = 0"
proof -
  let ?S = "arraySort byDateDesc (filter r_completed rs)"
  have rS: "r \<in> set ?S" using assms by (simp add: set_arraySort)
  then obtain x xs where S: "?S = x # xs" by (cases ?S) auto
  have "sorted_wrt dateDesc (x # xs)"
    using sorted_arraySort [of "filter r_completed rs"] by (simp add: S)
  then have "r_date r \<le> r_date x"
    using rS by (auto simp: S)
  with assms(3) have "r_date x \<noteq> isoDate now" by simp
  then show ?thesis by (simp add: currentStreak_fixedZone S)
qed

text \<open>
  The walk at 2024-03-10T23:30Z on a device in America/New_York: local time is 19:30 of
  10 March, one day earlier is 19:30 of 9 March, which is read five hours behind UTC and
  is 00:30Z of 10 March.
\<close>

lemma example_walk_newYork:
  "isoDate (minusDays newYork exampleEvening 0) = 19792"
  "isoDate (minusDays newYork exampleEvening 1) = 19792"
  by (simp_all add: minusDays_def utcOf_def localTime_def newYork_def exampleEvening_def
      isoDate_def msPerDay_def)

lemma example_sorted_streak:
  "arraySort byDateDesc (filter r_completed [exampleRecord 19791 True, exampleRecord 19792 True]) =
     [exampleRecord 19792 True, exampleRecord 19791 True]"
  by (simp add: arraySort_def byDateDesc_def parseDate_def msPerDay_def exampleRecord_def)

text \<open>
  Claim C4. The streak counts, over the completed records sorted by date descending, the
  leading indices \<open>i\<close> whose record is dated today minus \<open>i\<close> days. The loop of
  \<^verbatim>\<open>calculateStats\<close> takes the expected day with \<^verbatim>\<open>setDate\<close>, which walks
  the local calendar, and prints it with \<^verbatim>\<open>toISOString\<close>, which is UTC: across
  a daylight-saving change the two disagree. At 2024-03-10T23:30Z (day 19792) in
  America/New_York, with completed records dated 2024-03-10 and 2024-03-09, the expected
  day of index 1 is again 2024-03-10 and the streak is 1; the claim gives 2, which is also
  what the loop gives in a zone that stays five hours behind UTC.
\<close>

theorem currentStreak_daylight_saving:
  "isoDate exampleEvening = 19792
   \<and> map r_date (arraySort byDateDesc (filter r_completed
        [exampleRecord 19791 True, exampleRecord 19792 True])) = [19792, 19791]
   \<and> isoDate (minusDays newYork exampleEvening 1) = 19792
   \<and> currentStreak (calculateStats newYork exampleEvening
        [exampleRecord 19791 True, exampleRecord 19792 True]) = 1
   \<and> currentStreak (calculateStats (fixedZone (- 18000000)) exampleEvening
        [exampleRecord 19791 True, exampleRecord 19792 True]) = 2"
proof -
  have today: "isoDate exampleEvening = 19792"
    by (simp add: exampleEvening_def isoDate_def msPerDay_def)
  have dates: "map r_date (arraySort byDateDesc (filter r_completed
        [exampleRecord 19791 True, exampleRecord 19792 True])) = [19792, 19791]"
    unfolding example_sorted_streak by (simp add: exampleRecord_def)
  have "streakLoop newYork exampleEvening [exampleRecord 19792 True, exampleRecord 19791 True] 0 0
      = streakLoop newYork exampleEvening [exampleRecord 19792 True, exampleRecord 19791 True] 1 1"
    by (subst streakLoop.simps) (simp add: example_walk_newYork exampleRecord_def)
  also have "\<dots> = 1"
    by (subst streakLoop.simps) (simp add: example_walk_newYork exampleRecord_def)
  finally have ny: "currentStreak (calculateStats newYork exampleEvening
        [exampleRecord 19791 True, exampleRecord 19792 True]) = 1"
    unfolding calculateStats_def Let_def example_sorted_streak by simp
  have fixed: "currentStreak (calculateStats (fixedZone (- 18000000)) exampleEvening
        [exampleRecord 19791 True, exampleRecord 19792 True]) = 2"
    unfolding currentStreak_fixedZone example_sorted_streak
    by (simp add: today exampleRecord_def)
  from today dates example_walk_newYork(2) ny fixed show ?thesis by simp
qed

subsection \<open>The completion rate\<close>

lemma completionRate_eq:
  "completionRate (calculateStats tz now rs) =
     real (length (filter (\<lambda>r. r_completed r \<and> minusDays tz now 30 \<le> parseDate (r_date r)) rs))
       / 30 * 100"
  by (simp add: calculateStats_def Let_def conj_commute)

lemma completionRate_window:
  "completionRate (calculateStats (fixedZone off) now rs) =
     real (length (filter (\<lambda>r. r_completed r \<and>
        (if now mod msPerDay = 0 then isoDate now - 30 \<le> r_date r
         else isoDate now - 29 \<le> r_date r)) rs))
       / 30 * 100"
  by (simp only: completionRate_eq window_lower_bound)

lemma completionRate_six:
  "length (filter (\<lambda>r. r_completed r \<and> minusDays tz now 30 \<le> parseDate (r_date r)) rs) = 6 \<Longrightarrow>
   completionRate (calculateStats tz now rs) = 20"
  by (simp add: completionRate_eq)

text \<open>
  The filter has no upper bound: every date after today passes it.
\<close>

lemma future_date_in_window:
  "isoDate now < d \<Longrightarrow> minusDays (fixedZone off) now 30 \<le> parseDate d"
  by (simp add: window_lower_bound)

text \<open>
  Claim C2. The completion rate counts the completed records dated within the 30-day
  window that ends today, over the fixed denominator 30, and a record dated outside the
  window, a future date included, does not count. The filter of \<^verbatim>\<open>calculateStats\<close>
  (\<^verbatim>\<open>recordDate >= thirtyDaysAgo\<close>) has a lower bound only: at noon UTC of
  2024-03-15 (day 19797), in a zone of any fixed offset, a single completed record dated
  2024-03-20 (day 19802) gives the rate 10/3, where no record gives 0.
\<close>

theorem completionRate_counts_future_record:
  "isoDate exampleNow = 19797
   \<and> r_date (exampleRecord 19802 True) = 19802
   \<and> completionRate (calculateStats (fixedZone off) exampleNow [exampleRecord 19802 True]) = 10 / 3
   \<and> completionRate (calculateStats (fixedZone off) exampleNow []) = 0"
  by (simp add: completionRate_eq isoDate_def minusDays_fixedZone parseDate_def msPerDay_def
      exampleNow_def exampleRecord_def)

subsection \<open>Monthly progress\<close>

lemma monthlyProgress_eq:
  "monthlyProgress (calculateStats tz now rs) = completionRate (calculateStats tz now rs)
   \<and> completedDaysThisMonth (calculateStats tz now rs) =
       length (filter (\<lambda>r. r_completed r \<and> minusDays tz now 30 \<le> parseDate (r_date r)) rs)"
  by (simp add: calculateStats_def Let_def conj_commute)

text \<open>
  The home screen's month view at noon UTC of 2024-04-15, on a device whose zone is UTC:
  ten completed records within April, one in March, one in May and one not completed give
  10 of 30 days.
\<close>

lemma currentMonthStats_april:
  "calculateCurrentMonthStats (fixedZone 0) (parseDate 19828 + 43200000)
     [exampleRecord 19813 True, exampleRecord 19844 True, exampleRecord 19830 False,
      exampleRecord 19814 True, exampleRecord 19815 True, exampleRecord 19816 True,
      exampleRecord 19817 True, exampleRecord 19818 True, exampleRecord 19819 True,
      exampleRecord 19820 True, exampleRecord 19821 True, exampleRecord 19822 True,
      exampleRecord 19843 True] =
     \<lparr> progress = 100 / 3, completedDays = 10, totalDaysInMonth = 30 \<rparr>"
  unfolding calculateCurrentMonthStats_def Let_def example_month_april
  by (simp add: parseDate_le_iff exampleRecord_def)

text \<open>
  Claim C1. Monthly progress is computed over the current calendar month: the completed
  records dated from its first to its last day, over its number of days.
  \<^verbatim>\<open>calculateStats\<close> gives \<^verbatim>\<open>monthlyProgress\<close> and
  \<^verbatim>\<open>completedDaysThisMonth\<close> the values of the 30-day rate instead: at noon UTC of
  2024-03-15 a completed record dated 2024-02-20 gives 10/3 and 1, where the home screen's
  \<^verbatim>\<open>calculateCurrentMonthStats\<close> gives 0 of 31 days. The latter compares midnight
  UTC of a record's day with local midnights: it counts a completed record dated
  2024-03-01 on a device in UTC, and drops it on a device three hours west of UTC.
\<close>

theorem monthlyProgress_is_thirty_day_rate:
  "civilFromDays (isoDate exampleNow) = (2024, 3, 15)
   \<and> civilFromDays 19773 = (2024, 2, 20)
   \<and> monthlyProgress (calculateStats (fixedZone 0) exampleNow [exampleRecord 19773 True]) = 10 / 3
   \<and> completedDaysThisMonth (calculateStats (fixedZone 0) exampleNow [exampleRecord 19773 True]) = 1
   \<and> calculateCurrentMonthStats (fixedZone 0) exampleNow [exampleRecord 19773 True] =
       \<lparr> progress = 0, completedDays = 0, totalDaysInMonth = 31 \<rparr>
   \<and> civilFromDays 19783 = (2024, 3, 1)
   \<and> calculateCurrentMonthStats (fixedZone 0) exampleNow [exampleRecord 19783 True] =
       \<lparr> progress = 100 / 31, completedDays = 1, totalDaysInMonth = 31 \<rparr>
   \<and> calculateCurrentMonthStats (fixedZone (- 10800000)) exampleNow [exampleRecord 19783 True] =
       \<lparr> progress = 0, completedDays = 0, totalDaysInMonth = 31 \<rparr>"
proof -
  have b: "monthlyProgress (calculateStats (fixedZone 0) exampleNow [exampleRecord 19773 True]) = 10 / 3"
    "completedDaysThisMonth (calculateStats (fixedZone 0) exampleNow [exampleRecord 19773 True]) = 1"
    by (simp_all add: monthlyProgress_eq completionRate_eq minusDays_fixedZone parseDate_def
        msPerDay_def exampleNow_def exampleRecord_def)
  have c: "calculateCurrentMonthStats (fixedZone 0) exampleNow [exampleRecord 19773 True] =
       \<lparr> progress = 0, completedDays = 0, totalDaysInMonth = 31 \<rparr>"
    unfolding calculateCurrentMonthStats_def Let_def example_month_utc
    by (simp add: parseDate_le_iff exampleRecord_def)
  have d: "calculateCurrentMonthStats (fixedZone 0) exampleNow [exampleRecord 19783 True] =
       \<lparr> progress = 100 / 31, completedDays = 1, totalDaysInMonth = 31 \<rparr>"
    unfolding calculateCurrentMonthStats_def Let_def example_month_utc
    by (simp add: parseDate_le_iff exampleRecord_def)
  have e: "calculateCurrentMonthStats (fixedZone (- 10800000)) exampleNow [exampleRecord 19783 True] =
       \<lparr> progress = 0, completedDays = 0, totalDaysInMonth = 31 \<rparr>"
    unfolding calculateCurrentMonthStats_def Let_def example_month_brt
    by (simp add: parseDate_def exampleRecord_def)
  from example_calendar b c d e show ?thesis by simp
qed

subsection \<open>Registration and login\<close>

text \<open>
  Claim C6. \<^verbatim>\<open>registerUser\<close> with an email that matches a registered user's
  email under \<^verbatim>\<open>toLowerCase\<close> fails with the error
  \<^verbatim>\<open>Email already exists\<close> (DuplicateEmailError) and leaves the store, so also the
  user list, as it was. Otherwise it returns the new user, appends it to the user list,
  makes it the current session, and stores the default profile (name and email as given,
  the local date as start of the treatment, the tutorial not seen, both time stamps the
  clock's reading, no other field) and the default settings (notifications on, reminder
  at 09:00, goals 2 and 14, light theme, English, both time stamps the clock's reading).
  This holds for every function \<open>toLowerCase\<close>, so for the language's.
\<close>

theorem registerUser_unique_email:
  "((\<exists>u\<in>set (getAllUsers s). toLowerCase (u_email u) = toLowerCase email) \<longrightarrow>
      registerUser toLowerCase tz now email password name s =
        (Inl (Error ''Email already exists''), s))
   \<and> (\<not> (\<exists>u\<in>set (getAllUsers s). toLowerCase (u_email u) = toLowerCase email) \<longrightarrow>
      (\<exists>newUser s'. registerUser toLowerCase tz now email password name s = (Inr newUser, s')
         \<and> u_email newUser = email \<and> u_name newUser = name
         \<and> u_id newUser = ''user_'' @ numberToString now
         \<and> u_createdAt newUser = now \<and> u_updatedAt newUser = now
         \<and> getAllUsers s' = getAllUsers s @ [newUser]
         \<and> getCurrentUser s' = Some newUser
         \<and> authToken s' = Some (''token_'' @ numberToString now)
         \<and> getUserProfile s' = Some (defaultProfile tz now name email)
         \<and> userProfile s' =
             Some \<lparr> p_name = Some name, p_dateOfBirth = None, p_gender = None,
                    p_email = Some email, p_phone = None, p_profileImageUrl = None,
                    p_treatmentStartDate = Some (toLocaleDateString_ptBR tz now),
                    p_hasSeenTutorial = Some False, p_createdAt = Some now,
                    p_updatedAt = Some now \<rparr>
         \<and> userSettings s' = Some (defaultSettings now)
         \<and> userSettings s' =
             Some \<lparr> s_notifications = True, s_reminderTime = ''09:00'', s_dailyGoal = 2,
                    s_weeklyGoal = 14, s_theme = light, s_language = en, s_createdAt = now,
                    s_updatedAt = now \<rparr>
         \<and> dailyRecords s' = dailyRecords s \<and> tutorialSeen s' = tutorialSeen s))"
proof (cases "find (\<lambda>u. toLowerCase (u_email u) = toLowerCase email) (getAllUsers s)")
  case None
  then have "\<not> (\<exists>u\<in>set (getAllUsers s). toLowerCase (u_email u) = toLowerCase email)"
    by (simp add: find_None_iff)
  then show ?thesis
    using None
    by (simp add: registerUser_def Let_def getAllUsers_def getCurrentUser_def getUserProfile_def
        defaultProfile_def defaultSettings_def)
next
  case (Some u)
  then have "\<exists>u\<in>set (getAllUsers s). toLowerCase (u_email u) = toLowerCase email"
    by (auto simp: find_Some_iff)
  then show ?thesis
    using Some by (simp add: registerUser_def Let_def)
qed

theorem registerUser_unique_email_witness:
  "(\<exists>u\<in>set (getAllUsers exampleStore).
      asciiLowerCase (u_email u) = asciiLowerCase ''ana@EXAMPLE.com'')
   \<and> registerUser asciiLowerCase (fixedZone 0) exampleNow ''ana@EXAMPLE.com'' ''pw'' ''Ana''
        exampleStore =
       (Inl (Error ''Email already exists''), exampleStore)
   \<and> \<not> (\<exists>u\<in>set (getAllUsers exampleStore).
      asciiLowerCase (u_email u) = asciiLowerCase ''bob@example.com'')
   \<and> (\<exists>newUser s'. registerUser asciiLowerCase (fixedZone 0) exampleNow ''bob@example.com''
          ''pw'' ''Bob'' exampleStore = (Inr newUser, s')
       \<and> u_email newUser = ''bob@example.com''
       \<and> getAllUsers s' = getAllUsers exampleStore @ [newUser]
       \<and> getCurrentUser s' = Some newUser)"
proof -
  have dup: "\<exists>u\<in>set (getAllUsers exampleStore).
      asciiLowerCase (u_email u) = asciiLowerCase ''ana@EXAMPLE.com''"
    by code_simp
  have new: "\<not> (\<exists>u\<in>set (getAllUsers exampleStore).
      asciiLowerCase (u_email u) = asciiLowerCase ''bob@example.com'')"
    by code_simp
  have "registerUser asciiLowerCase (fixedZone 0) exampleNow ''ana@EXAMPLE.com'' ''pw'' ''Ana''
        exampleStore =
       (Inl (Error ''Email already exists''), exampleStore)"
    using dup
      registerUser_unique_email [of exampleStore asciiLowerCase "''ana@EXAMPLE.com''"
        "fixedZone 0" exampleNow "''pw''" "''Ana''"]
    by blast
  moreover have "\<exists>newUser s'.
      registerUser asciiLowerCase (fixedZone 0) exampleNow ''bob@example.com'' ''pw'' ''Bob''
        exampleStore = (Inr newUser, s')
       \<and> u_email newUser = ''bob@example.com''
       \<and> getAllUsers s' = getAllUsers exampleStore @ [newUser]
       \<and> getCurrentUser s' = Some newUser"
    using new
      registerUser_unique_email [of exampleStore asciiLowerCase "''bob@example.com''"
        "fixedZone 0" exampleNow "''pw''" "''Bob''"]
    by blast
  ultimately show ?thesis using dup new by blast
qed

text \<open>
  Claim C9. \<^verbatim>\<open>loginUser\<close> fails with \<^verbatim>\<open>User not found\<close>
  (UserNotFoundError) exactly when no registered user's email matches under
  \<^verbatim>\<open>toLowerCase\<close>. When one matches, it returns that user for every password,
  and sets the current user and a token made from the clock's reading. This holds for
  every function \<open>toLowerCase\<close>, so for the language's.
\<close>

theorem loginUser_any_password:
  "(fst (loginUser toLowerCase now email password s) = Inl (Error ''User not found'') \<longleftrightarrow>
      \<not> (\<exists>u\<in>set (getAllUsers s). toLowerCase (u_email u) = toLowerCase email))
   \<and> ((\<exists>u\<in>set (getAllUsers s). toLowerCase (u_email u) = toLowerCase email) \<longrightarrow>
      (\<exists>u s'. loginUser toLowerCase now email password s = (Inr u, s')
         \<and> u \<in> set (getAllUsers s) \<and> toLowerCase (u_email u) = toLowerCase email
         \<and> getCurrentUser s' = Some u
         \<and> authToken s' = Some (''token_'' @ numberToString now)
         \<and> s' = s\<lparr>currentUser := Some u, authToken := Some (''token_'' @ numberToString now)\<rparr>
         \<and> (\<forall>password'. loginUser toLowerCase now email password' s = (Inr u, s'))))"
proof (cases "find (\<lambda>u. toLowerCase (u_email u) = toLowerCase email) (getAllUsers s)")
  case None
  then have "\<not> (\<exists>u\<in>set (getAllUsers s). toLowerCase (u_email u) = toLowerCase email)"
    by (simp add: find_None_iff)
  then show ?thesis
    using None by (simp add: loginUser_def Let_def)
next
  case (Some u)
  then have u: "u \<in> set (getAllUsers s)" "toLowerCase (u_email u) = toLowerCase email"
    by (auto simp: find_Some_iff in_set_conv_nth)
  then have ex: "\<exists>u\<in>set (getAllUsers s). toLowerCase (u_email u) = toLowerCase email"
    by blast
  have "loginUser toLowerCase now email pw s =
      (Inr u, s\<lparr>currentUser := Some u, authToken := Some (''token_'' @ numberToString now)\<rparr>)" for pw
    using Some by (simp add: loginUser_def Let_def)
  then show ?thesis
    using u ex by (simp add: getCurrentUser_def)
qed

theorem loginUser_any_password_witness:
  "(\<exists>u\<in>set (getAllUsers exampleStore).
      asciiLowerCase (u_email u) = asciiLowerCase ''ANA@example.com'')
   \<and> (\<exists>s'. loginUser asciiLowerCase exampleNow ''ANA@example.com'' ''wrong password'' exampleStore =
         (Inr exampleUser, s') \<and> getCurrentUser s' = Some exampleUser)
   \<and> \<not> (\<exists>u\<in>set (getAllUsers exampleStore).
      asciiLowerCase (u_email u) = asciiLowerCase ''bob@example.com'')
   \<and> fst (loginUser asciiLowerCase exampleNow ''bob@example.com'' ''pw'' exampleStore) =
       Inl (Error ''User not found'')"
proof -
  have known: "\<exists>u\<in>set (getAllUsers exampleStore).
      asciiLowerCase (u_email u) = asciiLowerCase ''ANA@example.com''"
    by code_simp
  have unknown: "\<not> (\<exists>u\<in>set (getAllUsers exampleStore).
      asciiLowerCase (u_email u) = asciiLowerCase ''bob@example.com'')"
    by code_simp
  obtain u s' where "loginUser asciiLowerCase exampleNow ''ANA@example.com'' ''wrong password''
      exampleStore = (Inr u, s')" "u \<in> set (getAllUsers exampleStore)" "getCurrentUser s' = Some u"
    using known
      loginUser_any_password [of asciiLowerCase exampleNow "''ANA@example.com''"
        "''wrong password''" exampleStore]
    by blast
  then have "\<exists>s'. loginUser asciiLowerCase exampleNow ''ANA@example.com'' ''wrong password''
      exampleStore = (Inr exampleUser, s') \<and> getCurrentUser s' = Some exampleUser"
    by (simp add: example_users)
  moreover have "fst (loginUser asciiLowerCase exampleNow ''bob@example.com'' ''pw'' exampleStore) =
       Inl (Error ''User not found'')"
    using unknown
      loginUser_any_password [of asciiLowerCase exampleNow "''bob@example.com''" "''pw''"
        exampleStore]
    by blast
  ultimately show ?thesis using known unknown by blast
qed

subsection \<open>Updating a daily record\<close>

lemma findIndex_nonneg: "- 1 \<le> findIndex P xs"
  by (induction xs) (auto simp: Let_def)

lemma findIndex_none: "findIndex P xs = - 1 \<longleftrightarrow> \<not> (\<exists>x\<in>set xs. P x)"
proof (induction xs)
  case Nil
  then show ?case by simp
next
  case (Cons x xs)
  have "findIndex P xs + 1 \<noteq> - 1"
    using findIndex_nonneg [of P xs] by linarith
  with Cons show ?case by (auto simp: Let_def)
qed

lemma findIndex_first:
  "findIndex P xs \<noteq> - 1 \<Longrightarrow>
   nat (findIndex P xs) < length xs \<and> P (xs ! nat (findIndex P xs)) \<and>
   (\<forall>j < nat (findIndex P xs). \<not> P (xs ! j))"
proof (induction xs)
  case Nil
  then show ?case by simp
next
  case (Cons x xs)
  show ?case
  proof (cases "P x")
    case True
    then show ?thesis by simp
  next
    case False
    with Cons.prems have ne: "findIndex P xs \<noteq> - 1" by (auto simp: Let_def)
    then have nn: "0 \<le> findIndex P xs" using findIndex_nonneg [of P xs] by linarith
    have eq: "nat (findIndex P (x # xs)) = Suc (nat (findIndex P xs))"
      using False ne nn by (simp add: Let_def nat_add_distrib)
    show ?thesis
      using Cons.IH [OF ne] False unfolding eq by (auto simp: nth_Cons split: nat.splits)
  qed
qed

lemma updateDailyRecord_absent:
  assumes "recordId \<notin> r_id ` set (storedRecords s)"
  shows "updateDailyRecord now recordId updates s = (Inl (Error ''Record not found''), s)"
proof -
  have "set (getDailyRecords s) = set (storedRecords s)"
    by (simp add: getDailyRecords_def set_arraySort)
  with assms have "findIndex (\<lambda>r. r_id r = recordId) (getDailyRecords s) = - 1"
    by (auto simp: findIndex_none)
  then show ?thesis by (simp add: updateDailyRecord_def Let_def)
qed

lemma updateDailyRecord_found:
  assumes "recordId \<in> r_id ` set (storedRecords s)"
  shows "\<exists>i < length (getDailyRecords s).
         r_id (getDailyRecords s ! i) = recordId
         \<and> (\<forall>j < i. r_id (getDailyRecords s ! j) \<noteq> recordId)
         \<and> updateDailyRecord now recordId updates s =
             (Inr (), s\<lparr>dailyRecords := Some ((getDailyRecords s)
                [i := mergeDailyRecord (getDailyRecords s ! i) updates now])\<rparr>)"
proof -
  let ?rs = "getDailyRecords s"
  let ?k = "findIndex (\<lambda>r. r_id r = recordId) ?rs"
  have "set ?rs = set (storedRecords s)"
    by (simp add: getDailyRecords_def set_arraySort)
  with assms have ne: "?k \<noteq> - 1"
    by (auto simp: findIndex_none)
  then have "updateDailyRecord now recordId updates s =
      (Inr (), s\<lparr>dailyRecords := Some (?rs[nat ?k := mergeDailyRecord (?rs ! nat ?k) updates now])\<rparr>)"
    by (simp add: updateDailyRecord_def Let_def)
  with findIndex_first [OF ne] show ?thesis by blast
qed

lemma mergeDailyRecord_fields:
  "r_id (mergeDailyRecord r u now) = (case ru_id u of Some v \<Rightarrow> v | None \<Rightarrow> r_id r)"
  "r_date (mergeDailyRecord r u now) = (case ru_date u of Some v \<Rightarrow> v | None \<Rightarrow> r_date r)"
  "r_capsules (mergeDailyRecord r u now) =
     (case ru_capsules u of Some v \<Rightarrow> v | None \<Rightarrow> r_capsules r)"
  "r_time (mergeDailyRecord r u now) = (case ru_time u of Some v \<Rightarrow> v | None \<Rightarrow> r_time r)"
  "r_notes (mergeDailyRecord r u now) =
     (case ru_notes u of Some v \<Rightarrow> Some v | None \<Rightarrow> r_notes r)"
  "r_completed (mergeDailyRecord r u now) =
     (case ru_completed u of Some v \<Rightarrow> v | None \<Rightarrow> r_completed r)"
  "r_createdAt (mergeDailyRecord r u now) =
     (case ru_createdAt u of Some v \<Rightarrow> v | None \<Rightarrow> r_createdAt r)"
  "r_updatedAt (mergeDailyRecord r u now) = now"
  by (simp_all add: mergeDailyRecord_def spread_def spreadOpt_def)

text \<open>
  Claim C7. \<^verbatim>\<open>updateDailyRecord\<close> with an id that no stored record has fails with
  \<^verbatim>\<open>Record not found\<close> (RecordNotFoundError) and leaves the store as it was. With
  an id that a stored record has, it replaces the first record of that id in the list as
  read, and writes that list back. The replacement has, field by field, the value that the
  update supplies, and the value of the record where the update supplies none; its
  \<^verbatim>\<open>updatedAt\<close> is the clock's reading, also when the update supplies one.
\<close>

theorem updateDailyRecord_not_found:
  "(recordId \<notin> r_id ` set (storedRecords s) \<longrightarrow>
      updateDailyRecord now recordId updates s = (Inl (Error ''Record not found''), s))
   \<and> (recordId \<in> r_id ` set (storedRecords s) \<longrightarrow>
      (\<exists>i < length (getDailyRecords s).
         r_id (getDailyRecords s ! i) = recordId
         \<and> (\<forall>j < i. r_id (getDailyRecords s ! j) \<noteq> recordId)
         \<and> updateDailyRecord now recordId updates s =
             (Inr (), s\<lparr>dailyRecords := Some ((getDailyRecords s)
                [i := mergeDailyRecord (getDailyRecords s ! i) updates now])\<rparr>)
         \<and> (\<exists>r'. updateDailyRecord now recordId updates s =
                (Inr (), s\<lparr>dailyRecords := Some ((getDailyRecords s)[i := r'])\<rparr>)
             \<and> r_id r' =
                 (case ru_id updates of Some v \<Rightarrow> v | None \<Rightarrow> r_id (getDailyRecords s ! i))
             \<and> r_date r' =
                 (case ru_date updates of Some v \<Rightarrow> v | None \<Rightarrow> r_date (getDailyRecords s ! i))
             \<and> r_capsules r' =
                 (case ru_capsules updates of Some v \<Rightarrow> v
                  | None \<Rightarrow> r_capsules (getDailyRecords s ! i))
             \<and> r_time r' =
                 (case ru_time updates of Some v \<Rightarrow> v | None \<Rightarrow> r_time (getDailyRecords s ! i))
             \<and> r_notes r' =
                 (case ru_notes updates of Some v \<Rightarrow> Some v
                  | None \<Rightarrow> r_notes (getDailyRecords s ! i))
             \<and> r_completed r' =
                 (case ru_completed updates of Some v \<Rightarrow> v
                  | None \<Rightarrow> r_completed (getDailyRecords s ! i))
             \<and> r_createdAt r' =
                 (case ru_createdAt updates of Some v \<Rightarrow> v
                  | None \<Rightarrow> r_createdAt (getDailyRecords s ! i))
             \<and> r_updatedAt r' = now)))"
proof (intro conjI impI)
  assume "recordId \<notin> r_id ` set (storedRecords s)"
  then show "updateDailyRecord now recordId updates s = (Inl (Error ''Record not found''), s)"
    by (rule updateDailyRecord_absent)
next
  assume "recordId \<in> r_id ` set (storedRecords s)"
  from updateDailyRecord_found [OF this, of now updates]
  obtain i where i: "i < length (getDailyRecords s)" "r_id (getDailyRecords s ! i) = recordId"
      "\<forall>j < i. r_id (getDailyRecords s ! j) \<noteq> recordId"
    and u: "updateDailyRecord now recordId updates s =
             (Inr (), s\<lparr>dailyRecords := Some ((getDailyRecords s)
                [i := mergeDailyRecord (getDailyRecords s ! i) updates now])\<rparr>)"
    by blast
  show "\<exists>i < length (getDailyRecords s).
         r_id (getDailyRecords s ! i) = recordId
         \<and> (\<forall>j < i. r_id (getDailyRecords s ! j) \<noteq> recordId)
         \<and> updateDailyRecord now recordId updates s =
             (Inr (), s\<lparr>dailyRecords := Some ((getDailyRecords s)
                [i := mergeDailyRecord (getDailyRecords s ! i) updates now])\<rparr>)
         \<and> (\<exists>r'. updateDailyRecord now recordId updates s =
                (Inr (), s\<lparr>dailyRecords := Some ((getDailyRecords s)[i := r'])\<rparr>)
             \<and> r_id r' =
                 (case ru_id updates of Some v \<Rightarrow> v | None \<Rightarrow> r_id (getDailyRecords s ! i))
             \<and> r_date r' =
                 (case ru_date updates of Some v \<Rightarrow> v | None \<Rightarrow> r_date (getDailyRecords s ! i))
             \<and> r_capsules r' =
                 (case ru_capsules updates of Some v \<Rightarrow> v
                  | None \<Rightarrow> r_capsules (getDailyRecords s ! i))
             \<and> r_time r' =
                 (case ru_time updates of Some v \<Rightarrow> v | None \<Rightarrow> r_time (getDailyRecords s ! i))
             \<and> r_notes r' =
                 (case ru_notes updates of Some v \<Rightarrow> Some v
                  | None \<Rightarrow> r_notes (getDailyRecords s ! i))
             \<and> r_completed r' =
                 (case ru_completed updates of Some v \<Rightarrow> v
                  | None \<Rightarrow> r_completed (getDailyRecords s ! i))
             \<and> r_createdAt r' =
                 (case ru_createdAt updates of Some v \<Rightarrow> v
                  | None \<Rightarrow> r_createdAt (getDailyRecords s ! i))
             \<and> r_updatedAt r' = now)"
    using i u
    by (intro exI [of _ i] conjI exI [of _ "mergeDailyRecord (getDailyRecords s ! i) updates now"])
      (simp_all only: mergeDailyRecord_fields)
qed

theorem updateDailyRecord_not_found_witness:
  "''record_1'' \<notin> r_id ` set (storedRecords exampleStore)
   \<and> updateDailyRecord exampleNow ''record_1'' (noRecordUpdates\<lparr>ru_capsules := Some 3\<rparr>) exampleStore =
       (Inl (Error ''Record not found''), exampleStore)
   \<and> r_id (exampleRecord 19796 True) \<in> r_id ` set (storedRecords exampleStore)
   \<and> (\<exists>i < length (getDailyRecords exampleStore).
         updateDailyRecord exampleNow (r_id (exampleRecord 19796 True))
            (noRecordUpdates\<lparr>ru_capsules := Some 3\<rparr>) exampleStore =
           (Inr (), exampleStore\<lparr>dailyRecords := Some ((getDailyRecords exampleStore)
              [i := mergeDailyRecord (getDailyRecords exampleStore ! i)
                      (noRecordUpdates\<lparr>ru_capsules := Some 3\<rparr>) exampleNow])\<rparr>))"
proof -
  have absent: "''record_1'' \<notin> r_id ` set (storedRecords exampleStore)"
    by (simp add: example_defs string_eval)
  have present: "r_id (exampleRecord 19796 True) \<in> r_id ` set (storedRecords exampleStore)"
    by (simp add: exampleStore_def emptyStore_def)
  show ?thesis
    using absent present
      updateDailyRecord_not_found [of "''record_1''" exampleStore exampleNow
        "noRecordUpdates\<lparr>ru_capsules := Some 3\<rparr>"]
      updateDailyRecord_not_found [of "r_id (exampleRecord 19796 True)" exampleStore exampleNow
        "noRecordUpdates\<lparr>ru_capsules := Some 3\<rparr>"]
    by blast
qed

subsection \<open>Updating the profile when none is stored\<close>

text \<open>
  Claim C10. With no profile stored, \<^verbatim>\<open>updateUserProfile\<close> does not fail: it stores
  the supplied fields with \<^verbatim>\<open>updatedAt\<close> set to the clock's reading. The stored
  object has the \<^verbatim>\<open>createdAt\<close>, the name and the email of the update, so none where
  the update has none, and it is not the default profile of a registration.
\<close>

theorem updateUserProfile_without_profile:
  "userProfile s = None \<longrightarrow>
     updateUserProfile now updates s =
       (Inr (), s\<lparr>userProfile := Some (updates\<lparr>p_updatedAt := Some now\<rparr>)\<rparr>)
     \<and> (\<forall>p. getUserProfile (snd (updateUserProfile now updates s)) = Some p \<longrightarrow>
           p_updatedAt p = Some now \<and> p_createdAt p = p_createdAt updates
           \<and> p_name p = p_name updates \<and> p_email p = p_email updates)
     \<and> (p_createdAt updates = None \<longrightarrow>
           getUserProfile (snd (updateUserProfile now updates s)) \<noteq> Some (defaultProfile tz now' name email))"
  by (auto simp: updateUserProfile_def getUserProfile_def mergeProfile_def noProfile_def
      spreadOpt_def defaultProfile_def Let_def split: option.splits)

theorem updateUserProfile_without_profile_witness:
  "userProfile exampleStore = None
   \<and> updateUserProfile exampleNow (noProfile\<lparr>p_phone := Some ''555''\<rparr>) exampleStore =
       (Inr (), exampleStore\<lparr>userProfile :=
          Some (noProfile\<lparr>p_phone := Some ''555'', p_updatedAt := Some exampleNow\<rparr>)\<rparr>)
   \<and> p_createdAt (noProfile\<lparr>p_phone := Some ''555''\<rparr>) = None"
proof -
  have h: "userProfile exampleStore = None"
    by (simp add: exampleStore_def emptyStore_def)
  have c: "p_createdAt (noProfile\<lparr>p_phone := Some ''555''\<rparr>) = None"
    by (simp add: noProfile_def)
  show ?thesis
    using h c updateUserProfile_without_profile [of exampleStore exampleNow
        "noProfile\<lparr>p_phone := Some ''555''\<rparr>"]
    by simp
qed

subsection \<open>Time stamps of an update\<close>

text \<open>
  Claim C3 has \<^verbatim>\<open>createdAt\<close> unchanged for every partial update. An update that
  carries a \<^verbatim>\<open>createdAt\<close> of its own replaces the stored one: the records of the
  example store are created at 0, and the update of one of them with
  \<^verbatim>\<open>{createdAt: 999}\<close> leaves it created at 999.
\<close>

theorem createdAt_overwritten_counterexample:
  "map r_createdAt (getDailyRecords exampleStore) = [0, 0, 0]
   \<and> fst (updateDailyRecord exampleNow ''record_19797''
            (noRecordUpdates\<lparr>ru_createdAt := Some 999\<rparr>) exampleStore) = Inr ()
   \<and> map r_createdAt (getDailyRecords (snd (updateDailyRecord exampleNow ''record_19797''
            (noRecordUpdates\<lparr>ru_createdAt := Some 999\<rparr>) exampleStore))) = [999, 0, 0]"
  by (simp add: updateDailyRecord_def Let_def mergeDailyRecord_def spread_def
      spreadOpt_def noRecordUpdates_def example_defs string_eval getDailyRecords_def
      arraySort_def byDateDesc_def parseDate_def msPerDay_def)

text \<open>
  Claim C3, amended. An update of a daily record, of the profile or of the settings sets
  \<^verbatim>\<open>updatedAt\<close> to the clock's reading, whatever the partial update holds.
  \<^verbatim>\<open>createdAt\<close> keeps its stored value when the partial update has no
  \<^verbatim>\<open>createdAt\<close>, and takes the supplied value when it has one. For the settings the
  stored value is that of the settings as read, which are the defaults of this moment when
  none are stored.
\<close>

theorem updates_restamp:
  "(recordId \<in> r_id ` set (storedRecords s) \<longrightarrow>
      (\<exists>i r'. i < length (getDailyRecords s) \<and> r_id (getDailyRecords s ! i) = recordId
         \<and> snd (updateDailyRecord now recordId ru s) =
             s\<lparr>dailyRecords := Some ((getDailyRecords s)[i := r'])\<rparr>
         \<and> r_updatedAt r' = now
         \<and> r_createdAt r' =
             (case ru_createdAt ru of None \<Rightarrow> r_createdAt (getDailyRecords s ! i) | Some c \<Rightarrow> c)))
   \<and> (\<exists>p'. userProfile (snd (updateUserProfile now pu s)) = Some p'
         \<and> p_updatedAt p' = Some now
         \<and> p_createdAt p' =
             (case p_createdAt pu of
                None \<Rightarrow> (case userProfile s of None \<Rightarrow> None | Some p \<Rightarrow> p_createdAt p)
              | Some c \<Rightarrow> Some c))
   \<and> (\<exists>st'. userSettings (snd (updateUserSettings now su s)) = Some st'
         \<and> s_updatedAt st' = now
         \<and> s_createdAt st' =
             (case su_createdAt su of
                None \<Rightarrow> s_createdAt (fst (getUserSettings now s))
              | Some c \<Rightarrow> c))"
proof (intro conjI impI)
  assume "recordId \<in> r_id ` set (storedRecords s)"
  from updateDailyRecord_found [OF this, of now ru]
  obtain i where i: "i < length (getDailyRecords s)" "r_id (getDailyRecords s ! i) = recordId"
    and u: "updateDailyRecord now recordId ru s =
             (Inr (), s\<lparr>dailyRecords := Some ((getDailyRecords s)
                [i := mergeDailyRecord (getDailyRecords s ! i) ru now])\<rparr>)"
    by blast
  have "r_updatedAt (mergeDailyRecord (getDailyRecords s ! i) ru now) = now"
    by (simp add: mergeDailyRecord_def)
  moreover have "r_createdAt (mergeDailyRecord (getDailyRecords s ! i) ru now) =
      (case ru_createdAt ru of None \<Rightarrow> r_createdAt (getDailyRecords s ! i) | Some c \<Rightarrow> c)"
    by (simp add: mergeDailyRecord_def spread_def)
  ultimately show "\<exists>i r'. i < length (getDailyRecords s) \<and> r_id (getDailyRecords s ! i) = recordId
         \<and> snd (updateDailyRecord now recordId ru s) =
             s\<lparr>dailyRecords := Some ((getDailyRecords s)[i := r'])\<rparr>
         \<and> r_updatedAt r' = now
         \<and> r_createdAt r' =
             (case ru_createdAt ru of None \<Rightarrow> r_createdAt (getDailyRecords s ! i) | Some c \<Rightarrow> c)"
    using i u by (intro exI [of _ i] exI [of _ "mergeDailyRecord (getDailyRecords s ! i) ru now"]) simp
next
  show "\<exists>p'. userProfile (snd (updateUserProfile now pu s)) = Some p'
         \<and> p_updatedAt p' = Some now
         \<and> p_createdAt p' =
             (case p_createdAt pu of
                None \<Rightarrow> (case userProfile s of None \<Rightarrow> None | Some p \<Rightarrow> p_createdAt p)
              | Some c \<Rightarrow> Some c)"
    by (simp add: updateUserProfile_def getUserProfile_def mergeProfile_def spreadOpt_def
        noProfile_def Let_def split: option.splits)
next
  show "\<exists>st'. userSettings (snd (updateUserSettings now su s)) = Some st'
         \<and> s_updatedAt st' = now
         \<and> s_createdAt st' =
             (case su_createdAt su of
                None \<Rightarrow> s_createdAt (fst (getUserSettings now s))
              | Some c \<Rightarrow> c)"
    by (simp add: updateUserSettings_def mergeSettings_def spread_def Let_def split_beta)
qed

theorem updates_restamp_witness:
  "r_id (exampleRecord 19796 True) \<in> r_id ` set (storedRecords exampleStore)
   \<and> (\<exists>i r'. snd (updateDailyRecord exampleNow (r_id (exampleRecord 19796 True))
                    (noRecordUpdates\<lparr>ru_capsules := Some 3\<rparr>) exampleStore) =
             exampleStore\<lparr>dailyRecords := Some ((getDailyRecords exampleStore)[i := r'])\<rparr>
         \<and> r_updatedAt r' = exampleNow
         \<and> r_createdAt r' = r_createdAt (getDailyRecords exampleStore ! i))"
proof -
  have present: "r_id (exampleRecord 19796 True) \<in> r_id ` set (storedRecords exampleStore)"
    by (simp add: exampleStore_def emptyStore_def)
  have none: "ru_createdAt (noRecordUpdates\<lparr>ru_capsules := Some 3\<rparr>) = None"
    by (simp add: noRecordUpdates_def)
  show ?thesis
    using present
      updates_restamp [of "r_id (exampleRecord 19796 True)" exampleStore exampleNow
        "noRecordUpdates\<lparr>ru_capsules := Some 3\<rparr>" noProfile noSettingsUpdates]
    unfolding none option.case by blast
qed

subsection \<open>Export and import\<close>

text \<open>
  Claim C5. Importing the exported document into a fresh store reproduces the stored
  profile, the stored daily records (the same records, each with all its fields, now in
  the order in which \<^verbatim>\<open>getDailyRecords\<close> reads them, so that it reads the same
  list from both stores), and the settings as \<^verbatim>\<open>getUserSettings\<close> read them at
  the export (the stored ones, or the defaults that the export stored). Nothing else is
  set: the document's user and metadata are not imported.
\<close>

theorem export_import_round_trip:
  "fst (importAllData (fst (exportAllData now s)) emptyStore) = Inr ()
   \<and> getUserProfile (snd (importAllData (fst (exportAllData now s)) emptyStore)) = getUserProfile s
   \<and> getDailyRecords (snd (importAllData (fst (exportAllData now s)) emptyStore)) = getDailyRecords s
   \<and> fst (getUserSettings now' (snd (importAllData (fst (exportAllData now s)) emptyStore)))
       = fst (getUserSettings now s)
   \<and> userSettings (snd (importAllData (fst (exportAllData now s)) emptyStore))
       = userSettings (snd (exportAllData now s))
   \<and> snd (importAllData (fst (exportAllData now s)) emptyStore) =
       emptyStore\<lparr> userProfile := userProfile s,
                    dailyRecords := Some (getDailyRecords s),
                    userSettings := Some (fst (getUserSettings now s)) \<rparr>
   \<and> userProfile (snd (importAllData (fst (exportAllData now s)) emptyStore)) = userProfile s
   \<and> mset (storedRecords (snd (importAllData (fst (exportAllData now s)) emptyStore))) =
       mset (storedRecords s)
   \<and> storedRecords (snd (importAllData (fst (exportAllData now s)) emptyStore)) =
       arraySort byDateDesc (storedRecords s)
   \<and> userSettings (snd (importAllData (fst (exportAllData now s)) emptyStore)) =
       Some (case userSettings s of Some settings \<Rightarrow> settings | None \<Rightarrow> defaultSettings now)"
proof -
  have doc: "fst (exportAllData now s) =
      \<lparr> d_user = getCurrentUser s, d_profile = getUserProfile s,
        d_records = Some (getDailyRecords s), d_settings = Some (fst (getUserSettings now s)),
        d_metadata = Some \<lparr> version = ''1.0.0'', exportDate = now,
                             platform = ''MaxTestorin Tracker'' \<rparr> \<rparr>"
    by (simp add: exportAllData_def Let_def split_beta)
  have st: "snd (exportAllData now s) = snd (getUserSettings now s)"
    by (simp add: exportAllData_def Let_def split_beta)
  have imp: "snd (importAllData (fst (exportAllData now s)) emptyStore) =
       emptyStore\<lparr> userProfile := userProfile s,
                    dailyRecords := Some (getDailyRecords s),
                    userSettings := Some (fst (getUserSettings now s)) \<rparr>"
    unfolding doc
    by (cases "userProfile s") (simp_all add: importAllData_def Let_def getUserProfile_def emptyStore_def)
  have r: "fst (importAllData (fst (exportAllData now s)) emptyStore) = Inr ()"
    by (simp add: importAllData_def Let_def)
  have us: "userSettings (snd (getUserSettings now s)) = Some (fst (getUserSettings now s))"
    by (simp add: getUserSettings_def split: option.splits)
  have raw: "mset (getDailyRecords s) = mset (storedRecords s)"
    "getDailyRecords s = arraySort byDateDesc (storedRecords s)"
    by (simp_all add: getDailyRecords_def mset_arraySort)
  have set: "fst (getUserSettings now s) =
      (case userSettings s of Some settings \<Rightarrow> settings | None \<Rightarrow> defaultSettings now)"
    by (simp add: getUserSettings_def split: option.splits)
  have old: "fst (importAllData (fst (exportAllData now s)) emptyStore) = Inr ()
   \<and> getUserProfile (snd (importAllData (fst (exportAllData now s)) emptyStore)) = getUserProfile s
   \<and> getDailyRecords (snd (importAllData (fst (exportAllData now s)) emptyStore)) = getDailyRecords s
   \<and> fst (getUserSettings now' (snd (importAllData (fst (exportAllData now s)) emptyStore)))
       = fst (getUserSettings now s)
   \<and> userSettings (snd (importAllData (fst (exportAllData now s)) emptyStore))
       = userSettings (snd (exportAllData now s))"
    unfolding imp st
    using r us
    by (simp add: getUserProfile_def getDailyRecords_def arraySort_idem getUserSettings_def)
  have new: "userProfile (snd (importAllData (fst (exportAllData now s)) emptyStore)) = userProfile s
   \<and> mset (storedRecords (snd (importAllData (fst (exportAllData now s)) emptyStore))) =
       mset (storedRecords s)
   \<and> storedRecords (snd (importAllData (fst (exportAllData now s)) emptyStore)) =
       arraySort byDateDesc (storedRecords s)
   \<and> userSettings (snd (importAllData (fst (exportAllData now s)) emptyStore)) =
       Some (case userSettings s of Some settings \<Rightarrow> settings | None \<Rightarrow> defaultSettings now)"
    unfolding imp using raw set by simp
  from old imp new show ?thesis by blast
qed

end
